theory Spec2Isabelle
  imports Complex_Main "HOL-Library.Char_ord" "HOL-Library.List_Lexorder" "HOL-Library.Product_Lexorder"
begin

section \<open>ads2bibdesk: the reconciliation pipeline of \<^verbatim>\<open>src/ads2bibdesk.py\<close>\<close>

text \<open>
  The theory embeds \<^verbatim>\<open>process_pdf\<close>, \<^verbatim>\<open>get_gateway\<close>,
  \<^verbatim>\<open>BibDesk.safe_delete\<close>, \<^verbatim>\<open>BibDesk.pid\<close> and \<^verbatim>\<open>process_token\<close>.
  Everything outside the Python process is an explicit input: the answers of the ADS
  service, the bytes a URL serves, the names \<^verbatim>\<open>tempfile.mkstemp\<close> hands out, the
  answers of the BibDesk application to read-only AppleScript queries, and the files on
  disk. Everything the program does to the outside is an explicit output: the list of
  download attempts, the list of mutating AppleScript commands and notifications, and
  the new file system. Python exceptions are values of \<open>py_error\<close>. Calls to
  \<^verbatim>\<open>logging\<close> have no effect on any of this and are left out, except where evaluating
  their argument raises.
\<close>

subsection \<open>Python strings\<close>

datatype py_error =
  NameError | IndexError | KeyError | ValueError | TypeError | AttributeError
  | UnboundLocalError | FileNotFoundError

fun startswith :: "string \<Rightarrow> string \<Rightarrow> bool" where
  "startswith s [] = True"
| "startswith [] (p # ps) = False"
| "startswith (c # cs) (p # ps) = (c = p \<and> startswith cs ps)"

definition endswith :: "string \<Rightarrow> string \<Rightarrow> bool" where
  "endswith s suf = startswith (rev s) (rev suf)"

text \<open>\<open>py_in sub s\<close> is Python's \<^verbatim>\<open>sub in s\<close> on strings: \<open>sub\<close> occurs in \<open>s\<close>.\<close>

fun py_in :: "string \<Rightarrow> string \<Rightarrow> bool" where
  "py_in sub [] = (sub = [])"
| "py_in sub (c # cs) = (startswith (c # cs) sub \<or> py_in sub cs)"

subsection \<open>Preferences and the link gateway\<close>

text \<open>
  The \<^verbatim>\<open>[proxy]\<close> section of the preferences. \<^verbatim>\<open>ConfigParser\<close> yields strings; the
  defaults written by \<^verbatim>\<open>Preferences._get_prefs\<close> are \<^verbatim>\<open>None\<close>, \<^verbatim>\<open>None\<close> and
  \<^verbatim>\<open>22\<close>, so an unset option is the four-letter string \<^verbatim>\<open>None\<close>.
\<close>

record prefs =
  ssh_user :: string
  ssh_server :: string
  ssh_port :: string

definition default_prefs :: prefs where
  "default_prefs = \<lparr>ssh_user = ''None'', ssh_server = ''None'', ssh_port = ''22''\<rparr>"

definition gateway_url :: string where
  "gateway_url = ''https://ui.adsabs.harvard.edu/link_gateway''"

text \<open>\<^verbatim>\<open>get_gateway\<close>: the dictionary, as an association list in insertion order.\<close>

definition get_gateway :: "string \<Rightarrow> (string \<times> string) list" where
  "get_gateway article_identifier =
     [(''pub_pdf'', gateway_url @ ''/'' @ article_identifier @ ''/PUB_PDF''),
      (''pub_html'', gateway_url @ ''/'' @ article_identifier @ ''/PUB_HTML''),
      (''eprint_pdf'', gateway_url @ ''/'' @ article_identifier @ ''/EPRINT_PDF''),
      (''eprint_html'', gateway_url @ ''/'' @ article_identifier @ ''/EPRINT_HTML''),
      (''ads_pdf'', gateway_url @ ''/'' @ article_identifier @ ''/ADS_PDF''),
      (''ads_html'', gateway_url @ ''/'' @ article_identifier @ ''/ADS_SCAN'')]"

subsection \<open>\<^verbatim>\<open>process_pdf\<close>\<close>

text \<open>
  The network as \<^verbatim>\<open>process_pdf\<close> sees it. \<open>mkstemp k\<close> is the name of the \<open>k\<close>-th
  temporary file without the suffix the call asks for; \<open>local_file url\<close> is what
  \<^verbatim>\<open>file\<close> prints about the bytes \<^verbatim>\<open>requests.get(url)\<close> wrote; \<open>relay_file user
  server port url\<close> is what it prints once \<^verbatim>\<open>get_pdf_ssh\<close> has copied the remote
  download over the temporary file, \<open>None\<close> when the two shell commands failed and left
  the local bytes in place (\<^verbatim>\<open>get_pdf_ssh\<close> ignores their exit status). The
  output of \<^verbatim>\<open>file\<close> is taken to be text that decodes.
\<close>

record network =
  mkstemp :: "nat \<Rightarrow> string"
  local_file :: "string \<Rightarrow> string"
  relay_file :: "string \<Rightarrow> string \<Rightarrow> string \<Rightarrow> string \<Rightarrow> string option"

datatype fetch_event =
  is_Get: Get (get_url: string)
  | is_Relay: Relay (relay_user: string) (relay_server: string) (relay_port: string)
      (relay_url: string)

text \<open>
  One iteration up to the validation: \<^verbatim>\<open>requests.get\<close> into the temporary file, then
  \<^verbatim>\<open>get_pdf_ssh\<close> under the guard the source writes, then \<^verbatim>\<open>get_filetype\<close>.
\<close>

definition proxy_guard :: "prefs \<Rightarrow> bool" where
  "proxy_guard p = (ssh_user p \<noteq> ''None'' \<and> ssh_server p \<noteq> ''None'')"

definition download_events :: "prefs \<Rightarrow> string \<Rightarrow> fetch_event list" where
  "download_events p pdf_url =
     Get pdf_url
     # (if proxy_guard p then [Relay (ssh_user p) (ssh_server p) (ssh_port p) pdf_url] else [])"

definition downloaded_filetype :: "network \<Rightarrow> prefs \<Rightarrow> string \<Rightarrow> string" where
  "downloaded_filetype net p pdf_url =
     (if proxy_guard p then
        (case relay_file net (ssh_user p) (ssh_server p) (ssh_port p) pdf_url of
           None \<Rightarrow> local_file net pdf_url
         | Some t \<Rightarrow> t)
      else local_file net pdf_url)"

text \<open>
  The \<^verbatim>\<open>for fulltext_source in fulltext_sources\<close> loop. \<open>k\<close> counts the temporary
  files made so far, \<open>pdf_filename\<close> is the Python variable of that name (\<open>None\<close> while
  it is unbound), \<open>tr\<close> the attempts so far. The result is what \<^verbatim>\<open>process_pdf\<close>
  returns after the loop, \<^verbatim>\<open>(pdf_filename, pdf_status)\<close>, with the attempts.
\<close>

fun fetch_loop ::
  "network \<Rightarrow> prefs \<Rightarrow> (string \<times> string) list \<Rightarrow> string list \<Rightarrow> nat \<Rightarrow> string option
     \<Rightarrow> fetch_event list \<Rightarrow> (py_error + string \<times> bool) \<times> fetch_event list" where
  "fetch_loop net p ads_gateway [] k pdf_filename tr =
     (case pdf_filename of
        None \<Rightarrow> (Inl UnboundLocalError, tr)
      | Some f \<Rightarrow> (Inr (f, False), tr))"
| "fetch_loop net p ads_gateway (fulltext_source # rest) k pdf_filename tr =
     (case map_of ads_gateway (fulltext_source @ ''_pdf'') of
        None \<Rightarrow> (Inl KeyError, tr)
      | Some pdf_url \<Rightarrow>
          (let f = mkstemp net k @ ''.pdf'';
               tr' = tr @ download_events p pdf_url
           in if py_in ''PDF document'' (downloaded_filetype net p pdf_url)
              then (Inr (f, True), tr')
              else fetch_loop net p ads_gateway rest (Suc k) (Some f) tr'))"

text \<open>
  \<^verbatim>\<open>process_pdf\<close>. The assignment to \<^verbatim>\<open>pdf_url\<close> before the loop (the eprint link
  when \<^verbatim>\<open>'arXiv'\<close> occurs in the identifier, the publisher link otherwise) is kept as
  \<open>pdf_url0\<close>: the loop assigns \<^verbatim>\<open>pdf_url\<close> anew before its first use, so the value
  is never read.
\<close>

definition default_sources :: "string list" where
  "default_sources = [''pub'', ''eprint'', ''ads'']"

definition process_pdf_from ::
  "network \<Rightarrow> prefs \<Rightarrow> string list \<Rightarrow> string
     \<Rightarrow> (py_error + string \<times> bool) \<times> fetch_event list" where
  "process_pdf_from net p fulltext_sources article_identifier =
     (let ads_gateway = get_gateway article_identifier;
          pdf_url0 = (if py_in ''arXiv'' article_identifier
                      then map_of ads_gateway ''eprint_pdf''
                      else map_of ads_gateway ''pub_pdf'')
      in fetch_loop net p ads_gateway fulltext_sources 0 None [])"

definition process_pdf ::
  "network \<Rightarrow> prefs \<Rightarrow> string \<Rightarrow> (py_error + string \<times> bool) \<times> fetch_event list" where
  "process_pdf net p article_identifier =
     process_pdf_from net p default_sources article_identifier"

subsection \<open>Files on disk\<close>

text \<open>
  The file system is a finite table from paths to the bytes of the file there (directories
  play no part). \<^verbatim>\<open>os.rename\<close> is POSIX \<^verbatim>\<open>rename\<close>: it replaces an existing
  target without complaint and raises when the source is missing; \<^verbatim>\<open>os.remove\<close>
  raises when the file is missing.
\<close>

type_synonym filesystem = "(string \<times> string) list"

definition os_path_exists :: "filesystem \<Rightarrow> string \<Rightarrow> bool" where
  "os_path_exists fs p = (map_of fs p \<noteq> None)"

definition os_rename :: "filesystem \<Rightarrow> string \<Rightarrow> string \<Rightarrow> py_error + filesystem" where
  "os_rename fs src dst =
     (case map_of fs src of
        None \<Rightarrow> Inl FileNotFoundError
      | Some bytes \<Rightarrow> Inr ((dst, bytes) # filter (\<lambda>(q, b). q \<noteq> src \<and> q \<noteq> dst) fs))"

definition os_remove :: "filesystem \<Rightarrow> string \<Rightarrow> py_error + filesystem" where
  "os_remove fs p =
     (if os_path_exists fs p then Inr (filter (\<lambda>(q, b). q \<noteq> p) fs)
      else Inl FileNotFoundError)"

text \<open>
  \<^verbatim>\<open>has_annotationss\<close> pipes \<^verbatim>\<open>strings f\<close> into \<^verbatim>\<open>grep -E 'Contents[ ]{0,1}\('\<close>
  and reports whether anything was printed. For a path the shell reads as one word that
  is: the file is there and its bytes hold \<^verbatim>\<open>Contents(\<close> or \<^verbatim>\<open>Contents (\<close> (both are
  printable and longer than the four characters \<^verbatim>\<open>strings\<close> asks for).
\<close>

definition has_annotationss :: "filesystem \<Rightarrow> string \<Rightarrow> bool" where
  "has_annotationss fs f =
     (case map_of fs f of
        None \<Rightarrow> False
      | Some bytes \<Rightarrow> py_in ''Contents('' bytes \<or> py_in ''Contents ('' bytes)"

text \<open>\<^verbatim>\<open>str.lower\<close> on the ASCII letters.\<close>

definition lower_char :: "char \<Rightarrow> char" where
  "lower_char c =
     (let n = (of_char c :: nat) in if 65 \<le> n \<and> n \<le> 90 then char_of (n + 32) else c)"

definition lower :: "string \<Rightarrow> string" where
  "lower s = map lower_char s"

text \<open>
  \<^verbatim>\<open>str.rfind\<close> of one character (\<open>-1\<close> when it does not occur) and
  \<^verbatim>\<open>os.path.splitext\<close> of \<^verbatim>\<open>posixpath\<close>: the extension starts at the last dot
  of the last path component, unless only dots come before it there.
\<close>

definition rfind :: "string \<Rightarrow> char \<Rightarrow> int" where
  "rfind s c =
     (if c \<in> set s then int (length s) - 1 - int (length (takeWhile (\<lambda>x. x \<noteq> c) (rev s)))
      else - 1)"

definition splitext :: "string \<Rightarrow> string \<times> string" where
  "splitext p =
     (let sepIndex = rfind p (CHR ''/'');
          dotIndex = rfind p (CHR ''.'')
      in if dotIndex > sepIndex
            \<and> filter (\<lambda>c. c \<noteq> CHR ''.'')
                 (take (nat (dotIndex - (sepIndex + 1))) (drop (nat (sepIndex + 1)) p)) \<noteq> []
         then (take (nat dotIndex) p, drop (nat dotIndex) p)
         else (p, []))"

text \<open>\<^verbatim>\<open>'{:d}'.format(n)\<close> for a natural number: its decimal digits.\<close>

fun format_d :: "nat \<Rightarrow> string" where
  "format_d n =
     (if n < 10 then [char_of (48 + n)]
      else format_d (n div 10) @ [char_of (48 + n mod 10)])"

declare format_d.simps [simp del]

definition backup_name :: "string \<Rightarrow> nat \<Rightarrow> string" where
  "backup_name path suffix = path @ ''_notes_'' @ format_d suffix @ ''.pdf''"

definition longest_path :: "filesystem \<Rightarrow> nat" where
  "longest_path fs = fold max (map (\<lambda>(q, b). length q) fs) 0"

text \<open>
  The \<^verbatim>\<open>while os.path.exists(backup)\<close> loop of \<^verbatim>\<open>safe_delete\<close>, returning the
  suffix it stops at. It stops because the table is finite: a name that exists is no
  longer than the longest path in the table.
\<close>

function free_suffix :: "filesystem \<Rightarrow> string \<Rightarrow> nat \<Rightarrow> nat" where
  "free_suffix fs path suffix =
     (if os_path_exists fs (backup_name path suffix) then free_suffix fs path (Suc suffix)
      else suffix)"
  by pat_completeness auto
termination
proof (relation "measure (\<lambda>(fs, path, suffix). 10 ^ longest_path fs - suffix)")
  show "wf (measure (\<lambda>(fs, path, suffix). 10 ^ longest_path fs - suffix))" by simp
next
  fix fs :: filesystem and path :: string and suffix :: nat
  assume there: "os_path_exists fs (backup_name path suffix)"
  have digits: "n < 10 ^ length (format_d n)" for n
  proof (induction n rule: format_d.induct)
    case (1 n)
    show ?case
    proof (cases "n < 10")
      case True
      then show ?thesis by (subst format_d.simps) simp
    next
      case False
      with 1 have "n div 10 < 10 ^ length (format_d (n div 10))" by simp
      then have "n < 10 * 10 ^ length (format_d (n div 10))"
        by (simp add: div_less_iff_less_mult)
      with False show ?thesis by (subst format_d.simps) simp
    qed
  qed
  have upper: "(m::nat) \<le> fold max xs m \<and> (\<forall>x \<in> set xs. x \<le> fold max xs m)" for xs m
  proof (induction xs arbitrary: m)
    case Nil
    show ?case by simp
  next
    case (Cons a xs)
    have "max a m \<le> fold max xs (max a m)" using Cons.IH by blast
    then show ?case using Cons.IH [of "max a m"] by auto
  qed
  from there obtain b where "(backup_name path suffix, b) \<in> set fs"
    by (auto simp: os_path_exists_def dest: map_of_SomeD)
  then have "length (backup_name path suffix) \<in> set (map (\<lambda>(q, b). length q) fs)" by force
  then have "length (backup_name path suffix) \<le> longest_path fs"
    unfolding longest_path_def using upper by blast
  moreover have "length (format_d suffix) \<le> length (backup_name path suffix)"
    by (simp add: backup_name_def)
  ultimately have "(10::nat) ^ length (format_d suffix) \<le> 10 ^ longest_path fs"
    by (simp add: power_increasing)
  with digits [of suffix] have "suffix < 10 ^ longest_path fs" by linarith
  then show "((fs, path, Suc suffix), (fs, path, suffix))
               \<in> measure (\<lambda>(fs, path, suffix). 10 ^ longest_path fs - suffix)"
    by simp
qed

declare free_suffix.simps [simp del]

subsection \<open>\<^verbatim>\<open>BibDesk.safe_delete\<close>\<close>

text \<open>
  The body of the \<^verbatim>\<open>for f, n in zip(...)\<close> loop, on the file system and the list
  \<^verbatim>\<open>keptPDFs\<close>. An exception leaves the file system as it was when it was raised.
\<close>

definition safe_delete_file ::
  "filesystem \<Rightarrow> string list \<Rightarrow> string \<times> string \<Rightarrow> (py_error + string list) \<times> filesystem" where
  "safe_delete_file fs keptPDFs fn =
     (let f = fst fn; n = snd fn
      in if endswith (lower f) ''pdf'' then
           if py_in ''_notes_'' f then (Inr (keptPDFs @ [f]), fs)
           else if n \<noteq> [] \<or> has_annotationss fs f then
             (let path = fst (splitext f);
                  suffix = free_suffix fs path 1;
                  backup = backup_name path suffix
              in case os_rename fs f backup of
                   Inl e \<Rightarrow> (Inl e, fs)
                 | Inr fs1 \<Rightarrow>
                     if os_path_exists fs1 (path @ ''.skim'') then
                       (case os_rename fs1 (path @ ''.skim'')
                               (path @ ''_notes_'' @ format_d suffix @ ''.skim'') of
                          Inl e \<Rightarrow> (Inl e, fs1)
                        | Inr fs2 \<Rightarrow> (Inr (keptPDFs @ [backup]), fs2))
                     else (Inr (keptPDFs @ [backup]), fs1))
           else
             (case os_remove fs f of
                Inl e \<Rightarrow> (Inl e, fs)
              | Inr fs1 \<Rightarrow> (Inr keptPDFs, fs1))
         else (Inr keptPDFs, fs))"

fun safe_delete_loop ::
  "filesystem \<Rightarrow> string list \<Rightarrow> (string \<times> string) list
     \<Rightarrow> (py_error + string list) \<times> filesystem" where
  "safe_delete_loop fs keptPDFs [] = (Inr keptPDFs, fs)"
| "safe_delete_loop fs keptPDFs (fn # rest) =
     (case safe_delete_file fs keptPDFs fn of
        (Inl e, fs1) \<Rightarrow> (Inl e, fs1)
      | (Inr keptPDFs1, fs1) \<Rightarrow> safe_delete_loop fs1 keptPDFs1 rest)"

text \<open>\<^verbatim>\<open>[x for x in xs if x is not None]\<close>\<close>

definition not_None :: "'a option list \<Rightarrow> 'a list" where
  "not_None xs = map the (filter (\<lambda>x. x \<noteq> None) xs)"

subsection \<open>The BibDesk application\<close>

text \<open>
  What the application answers to the read-only AppleScript queries the program sends,
  each keyed by the publication id the query addresses. \<open>titles\<close> and \<open>ids\<close> are
  the attributes \<^verbatim>\<open>BibDesk.refresh\<close> fills. \<open>imported_id\<close> is the id the
  application gives to the entry an \<^verbatim>\<open>import\<close> creates. String answers are the
  \<^verbatim>\<open>stringValue()\<close> of the reply; the two lists \<^verbatim>\<open>safe_delete\<close> reads may hold
  \<^verbatim>\<open>None\<close>.
\<close>

record bibdesk =
  titles :: "string list"
  ids :: "string list"
  authors_of :: "string \<Rightarrow> string list"
  abstract_of :: "string \<Rightarrow> string"
  names_of_fields :: "string \<Rightarrow> string list"
  values_of_fields :: "string \<Rightarrow> string list"
  note_of :: "string \<Rightarrow> string"
  groups_of :: "string \<Rightarrow> string list"
  linked_files_of :: "string \<Rightarrow> string option list"
  skim_notes_of :: "string \<Rightarrow> string option list"
  imported_id :: string
  doi_of :: "string \<Rightarrow> string"
  url_fields_of :: "string \<Rightarrow> string list"
  linked_urls_of :: "string \<Rightarrow> string list"
  cite_key_of :: "string \<Rightarrow> string"

text \<open>
  The AppleScript commands that change the application's document, by the text
  \<^verbatim>\<open>BibDesk.__call__\<close> is given: \<^verbatim>\<open>delete\<close>, \<^verbatim>\<open>import from "..."\<close>,
  \<^verbatim>\<open>set cite key to generated cite key\<close>, \<^verbatim>\<open>set abstract to "..."\<close>,
  \<^verbatim>\<open>add POSIX file "..." to beginning of linked files\<close>, \<^verbatim>\<open>auto file\<close>,
  \<^verbatim>\<open>make new linked URL at end of linked URLs with data "..."\<close>,
  \<^verbatim>\<open>add POSIX file "..." to end of linked files\<close>, \<^verbatim>\<open>set its note to "..."\<close>,
  \<^verbatim>\<open>set value of field "..." to "..."\<close>.
  \<open>Tell pid c\<close> is the call with that \<^verbatim>\<open>pid\<close> argument: \<open>Some pid\<close> addresses the
  publication with that id, \<open>None\<close> (the argument left out) the document.
  \<open>Add_groups pid groups\<close> is the script \<^verbatim>\<open>BibDesk.add_groups(pid, groups)\<close> runs,
  which adds the publication to each of the static groups named; \<open>Notify\<close> is a
  call of \<^verbatim>\<open>notify\<close>, taken to reach the Notification Center.
\<close>

datatype command =
  Delete
  | Import string
  | Set_cite_key
  | Set_abstract string
  | Add_file_beginning string
  | Auto_file
  | Make_linked_URL string
  | Add_file_end string
  | Set_note string
  | Set_field (field_name: string) (field_value: string)

datatype event =
  Tell (target: "string option") (sent: command)
  | Add_groups string "string list"
  | Notify string string string

text \<open>\<^verbatim>\<open>BibDesk.pid\<close>: \<^verbatim>\<open>self.ids[self.titles.index(title)]\<close>.\<close>

fun index_of :: "'a list \<Rightarrow> 'a \<Rightarrow> nat option" where
  "index_of [] x = None"
| "index_of (y # ys) x = (if y = x then Some 0 else map_option Suc (index_of ys x))"

definition pid :: "bibdesk \<Rightarrow> string \<Rightarrow> py_error + string" where
  "pid bd t =
     (case index_of (titles bd) t of
        None \<Rightarrow> Inl ValueError
      | Some i \<Rightarrow> if i < length (ids bd) then Inr (ids bd ! i) else Inl IndexError)"

text \<open>
  \<^verbatim>\<open>BibDesk.safe_delete\<close>: the loop over the linked files and their Skim notes, then
  the \<^verbatim>\<open>delete\<close> of the publication.
\<close>

definition safe_delete ::
  "bibdesk \<Rightarrow> filesystem \<Rightarrow> string \<Rightarrow> (py_error + string list) \<times> filesystem \<times> event list" where
  "safe_delete bd fs p =
     (let linked = linked_files_of bd p;
          skim = skim_notes_of bd p
      in case safe_delete_loop fs [] (zip (not_None linked) (not_None skim)) of
           (Inl e, fs1) \<Rightarrow> (Inl e, fs1, [])
         | (Inr keptPDFs, fs1) \<Rightarrow> (Inr keptPDFs, fs1, [Tell (Some p) Delete]))"

subsection \<open>\<^verbatim>\<open>difflib\<close>\<close>

text \<open>
  \<^verbatim>\<open>difflib\<close> belongs to Python, not to this program, so the matcher is a parameter:
  \<open>ratio a b\<close> stands for \<^verbatim>\<open>SequenceMatcher(None, a, b).ratio()\<close>, which is
  \<^verbatim>\<open>2.0 * matches / (len(a) + len(b))\<close>. It is taken as the exact quotient. The
  thresholds the program writes, \<^verbatim>\<open>.7\<close> and \<^verbatim>\<open>.6\<close>, are the doubles nearest to
  7/10 and 6/10 and the quotient is rounded to the nearest double, so the comparisons
  of the program agree with the exact ones for all strings short enough that no
  quotient other than the threshold itself rounds to it (sums of lengths below
  \<open>2^49\<close>).

  \<^verbatim>\<open>get_close_matches(word, possibilities, n=1, cutoff)\<close> collects \<^verbatim>\<open>(ratio, x)\<close>
  for each \<^verbatim>\<open>x\<close> whose ratio against \<^verbatim>\<open>word\<close> is at least the cutoff (its two
  cheaper tests are upper bounds of the ratio) and returns the string of the largest
  pair: \<^verbatim>\<open>heapq.nlargest(1, result)\<close> is \<^verbatim>\<open>max(result)\<close> in the order of tuples.
\<close>

type_synonym matcher = "string \<Rightarrow> string \<Rightarrow> rat"

fun py_max :: "'a::linorder list \<Rightarrow> 'a option" where
  "py_max [] = None"
| "py_max (x # xs) = (case py_max xs of None \<Rightarrow> Some x | Some m \<Rightarrow> Some (if m > x then m else x))"

definition get_close_matches :: "matcher \<Rightarrow> string \<Rightarrow> string list \<Rightarrow> rat \<Rightarrow> string list" where
  "get_close_matches ratio word possibilities cutoff =
     (let result = map (\<lambda>x. (ratio x word, x)) (filter (\<lambda>x. ratio x word \<ge> cutoff) possibilities)
      in case py_max result of None \<Rightarrow> [] | Some (score, x) \<Rightarrow> [x])"

subsection \<open>The ADS service\<close>

text \<open>
  One article of \<^verbatim>\<open>list(ads_query)\<close>, with the attributes the program reads.
  \<^verbatim>\<open>title\<close> and \<^verbatim>\<open>author\<close> are lists; \<^verbatim>\<open>abstract\<close> is \<^verbatim>\<open>None\<close> when ADS has
  none for the record.
\<close>

record article =
  bibcode :: string
  title :: "string list"
  author :: "string list"
  abstract :: "string option"

record ads_service =
  search :: "string \<Rightarrow> article list"
  export :: "string \<Rightarrow> string"

subsection \<open>Strings the program builds\<close>

text \<open>\<^verbatim>\<open>s.replace(c, r)\<close> for a one-character \<^verbatim>\<open>c\<close>.\<close>

definition py_replace :: "char \<Rightarrow> string \<Rightarrow> string \<Rightarrow> string" where
  "py_replace c r s = concat (map (\<lambda>x. if x = c then r else [x]) s)"

abbreviation backslash :: char where "backslash \<equiv> CHR 0x5C"
abbreviation dquote :: char where "dquote \<equiv> CHR 0x22"
abbreviation squote :: char where "squote \<equiv> CHR 0x27"

text \<open>\<^verbatim>\<open>.replace('\\', r'\\').replace('"', r'\"')\<close>\<close>

definition escape_quotes :: "string \<Rightarrow> string" where
  "escape_quotes s =
     py_replace dquote [backslash, dquote] (py_replace backslash [backslash, backslash] s)"

text \<open>
  \<^verbatim>\<open>repr\<close> of a string of ASCII characters, and of a pair of strings: what the
  f-string \<^verbatim>\<open>{(k, v)}\<close> puts into the text. Double quotes are chosen when the string
  holds a single quote and no double quote.
\<close>

definition hex_digit :: "nat \<Rightarrow> char" where
  "hex_digit n = (if n < 10 then char_of (48 + n) else char_of (87 + n))"

definition py_repr_char :: "char \<Rightarrow> char \<Rightarrow> string" where
  "py_repr_char q c =
     (let n = (of_char c :: nat)
      in if c = q \<or> c = backslash then [backslash, c]
         else if n = 9 then [backslash, CHR ''t'']
         else if n = 10 then [backslash, CHR ''n'']
         else if n = 13 then [backslash, CHR ''r'']
         else if n < 32 \<or> n = 127 then [backslash, CHR ''x'', hex_digit (n div 16), hex_digit (n mod 16)]
         else [c])"

definition py_repr :: "string \<Rightarrow> string" where
  "py_repr s =
     (let q = (if squote \<in> set s \<and> dquote \<notin> set s then dquote else squote)
      in [q] @ concat (map (py_repr_char q) s) @ [q])"

definition py_repr_pair :: "string \<Rightarrow> string \<Rightarrow> string" where
  "py_repr_pair k v = ''('' @ py_repr k @ '', '' @ py_repr v @ '')''"

subsection \<open>The text of a call\<close>

text \<open>
  The AppleScript source \<^verbatim>\<open>BibDesk.__call__\<close> builds from its \<^verbatim>\<open>cmd\<close> and
  \<^verbatim>\<open>pid\<close> arguments, for the commands above. The program puts its strings between
  double quotes as they are.
\<close>

definition quoted :: "string \<Rightarrow> string" where
  "quoted s = [dquote] @ s @ [dquote]"

fun command_text :: "command \<Rightarrow> string" where
  "command_text Delete = ''delete''"
| "command_text (Import b) = ''import from '' @ quoted b"
| "command_text Set_cite_key = ''set cite key to generated cite key''"
| "command_text (Set_abstract a) = ''set abstract to '' @ quoted a"
| "command_text (Add_file_beginning f) =
     ''add POSIX file '' @ quoted f @ '' to beginning of linked files''"
| "command_text Auto_file = ''auto file''"
| "command_text (Make_linked_URL u) =
     ''make new linked URL at end of linked URLs with data '' @ quoted u"
| "command_text (Add_file_end f) = ''add POSIX file '' @ quoted f @ '' to end of linked files''"
| "command_text (Set_note n) = ''set its note to '' @ quoted n"
| "command_text (Set_field k v) = ''set value of field '' @ quoted k @ '' to '' @ quoted v"

definition applescript :: "string option \<Rightarrow> command \<Rightarrow> string" where
  "applescript target_pid cmd =
     (case target_pid of
        None \<Rightarrow> ''tell first document of application '' @ quoted ''BibDesk'' @ '' to ''
                 @ command_text cmd
      | Some p \<Rightarrow> ''tell first document of application '' @ quoted ''BibDesk'' @ '' to ''
                   @ ''tell first publication whose id is '' @ quoted p @ '' to ''
                   @ command_text cmd)"

subsection \<open>Dictionaries in insertion order\<close>

fun dict_set :: "(string \<times> string) list \<Rightarrow> string \<Rightarrow> string \<Rightarrow> (string \<times> string) list" where
  "dict_set [] k v = [(k, v)]"
| "dict_set ((k', v') # d) k v = (if k' = k then (k, v) # d else (k', v') # dict_set d k v)"

text \<open>\<^verbatim>\<open>dict(pairs)\<close>: a later pair with the same key replaces the value in place.\<close>

definition dict_of :: "(string \<times> string) list \<Rightarrow> (string \<times> string) list" where
  "dict_of pairs = foldl (\<lambda>d kv. dict_set d (fst kv) (snd kv)) [] pairs"

text \<open>\<^verbatim>\<open>d.pop(k, default)\<close>: the value and the dictionary without the key.\<close>

definition dict_pop ::
  "(string \<times> string) list \<Rightarrow> string \<Rightarrow> string \<Rightarrow> string \<times> (string \<times> string) list" where
  "dict_pop d k dflt =
     (case map_of d k of
        None \<Rightarrow> (dflt, d)
      | Some v \<Rightarrow> (v, filter (\<lambda>kv. fst kv \<noteq> k) d))"

subsection \<open>\<^verbatim>\<open>process_token\<close>\<close>

text \<open>
  The three gates (lines 162 to 175 of the source): \<open>Inr (Some p)\<close> when the entry
  with id \<open>p\<close> passes all of them, \<open>Inr None\<close> when the program falls through to the
  import without removing anything. With \<^verbatim>\<open>None\<close> for the new abstract,
  \<^verbatim>\<open>SequenceMatcher(None, abstract, None).ratio()\<close> raises \<^verbatim>\<open>TypeError\<close>
  (it takes \<^verbatim>\<open>len\<close> of both).
\<close>

definition find_duplicate :: "matcher \<Rightarrow> bibdesk \<Rightarrow> article \<Rightarrow> string \<Rightarrow> py_error + string option" where
  "find_duplicate ratio bd ads_article title0 =
     (let found = get_close_matches ratio title0 (titles bd) (7 / 10)
      in if length found > 0 then
           (case pid bd (hd found) of
              Inl e \<Rightarrow> Inl e
            | Inr p \<Rightarrow>
                (case authors_of bd p of
                   [] \<Rightarrow> Inl IndexError
                 | old_author # _ \<Rightarrow>
                     (case author ads_article of
                        [] \<Rightarrow> Inl IndexError
                      | new_author # _ \<Rightarrow>
                          if found \<noteq> [] \<and> ratio old_author new_author > 6 / 10 then
                            (let old_abstract = abstract_of bd p
                             in if old_abstract = [] then Inr (Some p)
                                else (case abstract ads_article of
                                        None \<Rightarrow> Inl TypeError
                                      | Some new_abstract \<Rightarrow>
                                          if ratio old_abstract new_abstract > 6 / 10
                                          then Inr (Some p) else Inr None))
                          else Inr None)))
         else Inr None)"

record kept =
  kept_pdfs :: "string list"
  kept_fields :: "(string \<times> string) list"
  kept_groups :: "string list"

definition nothing_kept :: kept where
  "nothing_kept = \<lparr>kept_pdfs = [], kept_fields = [], kept_groups = []\<rparr>"

text \<open>
  Lines 175 to 193, run when the gates pass: read the groups, the fields and the note of
  the old entry, \<^verbatim>\<open>safe_delete\<close> it, notify. (\<^verbatim>\<open>bibdesk.refresh()\<close> reads the titles
  and ids again; nothing after it uses them.)
\<close>

definition preserve ::
  "bibdesk \<Rightarrow> filesystem \<Rightarrow> string \<Rightarrow> string \<Rightarrow> string
     \<Rightarrow> (py_error + kept) \<times> filesystem \<times> event list" where
  "preserve bd fs p article_identifier title0 =
     (let groups = groups_of bd p;
          fields0 = dict_of (filter (\<lambda>kv. fst kv \<noteq> ''Adscomment'')
                      (zip (names_of_fields bd p) (values_of_fields bd p)));
          fields1 = dict_set fields0 ''BibDeskAnnotation'' (note_of bd p)
      in case safe_delete bd fs p of
           (Inl e, fs1, ev) \<Rightarrow> (Inl e, fs1, ev)
         | (Inr pdfs, fs1, ev) \<Rightarrow>
             (Inr \<lparr>kept_pdfs = pdfs, kept_fields = fields1, kept_groups = groups\<rparr>, fs1,
              ev @ [Notify ''Duplicate publication removed'' article_identifier title0]))"

text \<open>
  Lines 209 to 219: what is attached for the fetched file. \<open>doi\<close> is the value of the
  new entry's \<^verbatim>\<open>doi\<close> field.
\<close>

definition attach_fetched :: "string \<Rightarrow> string \<Rightarrow> bool \<Rightarrow> string \<Rightarrow> event list" where
  "attach_fetched pub pdf_filename pdf_status doi =
     (if endswith pdf_filename ''.pdf'' \<and> pdf_status then
        [Tell (Some pub) (Add_file_beginning pdf_filename), Tell (Some pub) Auto_file]
      else if py_in ''http'' pdf_filename \<and> doi = [] then
        [Tell (Some pub) (Make_linked_URL pdf_filename)]
      else [])"

text \<open>Lines 221 to 233: the URL fields (and the eprint page) that become linked URLs.\<close>

definition link_urls :: "string \<Rightarrow> string list \<Rightarrow> string list \<Rightarrow> event list" where
  "link_urls pub urls urlspub =
     map (\<lambda>u. Tell (Some pub) (Make_linked_URL u)) (filter (\<lambda>u. u \<notin> set urlspub) urls)"

text \<open>
  Lines 239 to 245: the note and the custom fields. The last call is
  \<^verbatim>\<open>bibdesk(f'set value of field "{(k, v)}" to "{pub}"')\<close>, with no \<^verbatim>\<open>pid\<close>.
\<close>

definition restore_fields :: "string \<Rightarrow> (string \<times> string) list \<Rightarrow> string list \<Rightarrow> event list" where
  "restore_fields pub preserved newFields =
     (let popped = dict_pop preserved ''BibDeskAnnotation'' [];
          bibdesk_annotation = fst popped;
          others = snd popped
      in Tell (Some pub) (Set_note bibdesk_annotation)
         # map (\<lambda>kv. Tell None (Set_field (py_repr_pair (fst kv) (snd kv)) pub))
             (filter (\<lambda>kv. fst kv \<notin> set newFields) others))"

text \<open>
  Lines 195 to 258: import, cite key, abstract, attachments, linked URLs, kept files,
  note and fields, notification, groups. \<^verbatim>\<open>None.replace\<close> raises
  \<^verbatim>\<open>AttributeError\<close>.
\<close>

definition add_entry ::
  "bibdesk \<Rightarrow> string \<Rightarrow> article \<Rightarrow> string \<Rightarrow> string \<Rightarrow> string \<Rightarrow> bool \<Rightarrow> kept
     \<Rightarrow> (py_error + bool) \<times> event list" where
  "add_entry bd article_identifier ads_article title0 ads_bibtex pdf_filename pdf_status k =
     (let pub = imported_id bd;
          ev1 = [Tell None (Import (escape_quotes ads_bibtex)), Tell (Some pub) Set_cite_key]
      in case abstract ads_article of
           None \<Rightarrow> (Inl AttributeError, ev1)
         | Some a \<Rightarrow>
             (let ads_abstract_clean =
                    py_replace (CHR ''{'') '' '' (py_replace (CHR ''}'') '' '' (escape_quotes a));
                  ev2 = [Tell (Some pub) (Set_abstract ads_abstract_clean)];
                  ev3 = attach_fetched pub pdf_filename pdf_status (doi_of bd pub)
              in case (if py_in ''arXiv'' article_identifier
                       then (case map_of (get_gateway article_identifier) ''eprint_html'' of
                               None \<Rightarrow> Inl KeyError
                             | Some u \<Rightarrow> Inr (url_fields_of bd pub @ [u]))
                       else Inr (url_fields_of bd pub)) of
                   Inl e \<Rightarrow> (Inl e, ev1 @ ev2 @ ev3)
                 | Inr urls \<Rightarrow>
                     (Inr True,
                      ev1 @ ev2 @ ev3
                      @ link_urls pub urls (linked_urls_of bd pub)
                      @ map (\<lambda>kept_pdf. Tell (Some pub) (Add_file_end kept_pdf)) (kept_pdfs k)
                      @ restore_fields pub (kept_fields k) (names_of_fields bd pub)
                      @ [Notify ''New publication added'' (cite_key_of bd pub) title0]
                      @ (if kept_groups k \<noteq> [] then [Add_groups pub (kept_groups k)]
                         else []))))"

record result =
  outcome :: "py_error + bool"
  events :: "event list"
  disk :: filesystem
  attempts :: "fetch_event list"

text \<open>
  \<^verbatim>\<open>process_token\<close>. When the query does not give exactly one article the program
  notifies and then evaluates \<^verbatim>\<open>article_identifiern\<close>, a name that is not defined:
  \<^verbatim>\<open>NameError\<close> is raised before \<^verbatim>\<open>return False\<close> is reached.
\<close>

definition process_token ::
  "matcher \<Rightarrow> ads_service \<Rightarrow> network \<Rightarrow> prefs \<Rightarrow> bibdesk \<Rightarrow> filesystem \<Rightarrow> string \<Rightarrow> result" where
  "process_token ratio ads net p bd fs article_identifier =
     (let ads_articles = search ads article_identifier
      in if length ads_articles \<noteq> 1 then
           \<lparr>outcome = Inl NameError,
            events = [Notify ''Found Zero or Multiple ADS antries for '' article_identifier
                        '' No update in BibDesk''],
            disk = fs, attempts = []\<rparr>
         else
           (let ads_article = hd ads_articles;
                ads_bibtex = export ads (bibcode ads_article)
            in case process_pdf net p article_identifier of
                 (Inl e, att) \<Rightarrow> \<lparr>outcome = Inl e, events = [], disk = fs, attempts = att\<rparr>
               | (Inr pdf, att) \<Rightarrow>
                   (case title ads_article of
                      [] \<Rightarrow> \<lparr>outcome = Inl IndexError, events = [], disk = fs, attempts = att\<rparr>
                    | title0 # _ \<Rightarrow>
                        (case find_duplicate ratio bd ads_article title0 of
                           Inl e \<Rightarrow> \<lparr>outcome = Inl e, events = [], disk = fs, attempts = att\<rparr>
                         | Inr None \<Rightarrow>
                             (let r = add_entry bd article_identifier ads_article title0 ads_bibtex
                                        (fst pdf) (snd pdf) nothing_kept
                              in \<lparr>outcome = fst r, events = snd r, disk = fs, attempts = att\<rparr>)
                         | Inr (Some old) \<Rightarrow>
                             (case preserve bd fs old article_identifier title0 of
                                (Inl e, fs1, ev) \<Rightarrow>
                                  \<lparr>outcome = Inl e, events = ev, disk = fs1, attempts = att\<rparr>
                              | (Inr k, fs1, ev) \<Rightarrow>
                                  (let r = add_entry bd article_identifier ads_article title0
                                             ads_bibtex (fst pdf) (snd pdf) k
                                   in \<lparr>outcome = fst r, events = ev @ snd r, disk = fs1,
                                       attempts = att\<rparr>))))))"

text \<open>Kinds of events, for statements about what a run sends.\<close>

fun is_Delete :: "event \<Rightarrow> bool" where
  "is_Delete (Tell t Delete) = True"
| "is_Delete e = False"

fun is_Set_field :: "event \<Rightarrow> bool" where
  "is_Set_field (Tell t (Set_field n v)) = True"
| "is_Set_field e = False"

fun is_Add_groups :: "event \<Rightarrow> bool" where
  "is_Add_groups (Add_groups p g) = True"
| "is_Add_groups e = False"

section \<open>Example data\<close>

text \<open>
  Environments for the closed examples below. \<open>pdf_net\<close> serves a PDF from every link,
  \<open>html_net\<close> an HTML page; neither has a relay.
\<close>

definition pdf_net :: network where
  "pdf_net = \<lparr>mkstemp = (\<lambda>k. ''/tmp/tmpab12cd34''),
     local_file = (\<lambda>u. ''PDF document, version 1.5''),
     relay_file = (\<lambda>usr srv prt u. None)\<rparr>"

definition html_net :: network where
  "html_net = \<lparr>mkstemp = (\<lambda>k. ''/tmp/tmpab12cd34''),
     local_file = (\<lambda>u. ''HTML document, ASCII text''),
     relay_file = (\<lambda>usr srv prt u. None)\<rparr>"

text \<open>
  A matcher for the examples: twice the length of the common prefix over the sum of the
  lengths. \<^verbatim>\<open>difflib\<close> computes the same number for two strings whose only common
  block is a common prefix, as in the examples.
\<close>

fun common_prefix :: "string \<Rightarrow> string \<Rightarrow> nat" where
  "common_prefix (x # xs) (y # ys) = (if x = y then Suc (common_prefix xs ys) else 0)"
| "common_prefix xs ys = 0"

definition prefix_matcher :: matcher where
  "prefix_matcher a b =
     (if length a + length b = 0 then 1
      else of_nat (2 * common_prefix a b) / of_nat (length a + length b))"

text \<open>
  A document with three entries. The titles of the second and third share seven and
  eight of ten characters with the titles the examples look up; the second entry has a
  custom field, a note, a group and an annotated PDF.
\<close>

definition example_bibdesk :: bibdesk where
  "example_bibdesk =
     \<lparr>titles = [''Dust maps'', ''abcdefgxyz'', ''abcdefghyz''],
      ids = [''id1'', ''id2'', ''id3''],
      authors_of = (\<lambda>p. if p = ''id2'' then [''Sick, J.'', ''Doe, J.''] else [''Roe, R.'']),
      abstract_of = (\<lambda>p. if p = ''id3'' then ''We map dust.'' else []),
      names_of_fields = (\<lambda>p. if p = ''id2'' then [''Title'', ''Rating'', ''Adscomment'']
                              else [''Title'', ''Doi'']),
      values_of_fields = (\<lambda>p. if p = ''id2'' then [''abcdefgxyz'', ''5'', ''arXiv only'']
                               else [''abcdefgrst'', []]),
      note_of = (\<lambda>p. if p = ''id2'' then ''read twice'' else []),
      groups_of = (\<lambda>p. if p = ''id2'' then [''Reading List''] else []),
      linked_files_of = (\<lambda>p. if p = ''id2'' then [Some ''/papers/sick.pdf''] else []),
      skim_notes_of = (\<lambda>p. if p = ''id2'' then [Some ''p.3: check''] else []),
      imported_id = ''id9'',
      doi_of = (\<lambda>p. []),
      url_fields_of = (\<lambda>p. [''https://ui.adsabs.harvard.edu/abs/1998ApJ...500..525S'']),
      linked_urls_of = (\<lambda>p. []),
      cite_key_of = (\<lambda>p. ''Sick:1998'')\<rparr>"

definition example_article :: article where
  "example_article =
     \<lparr>bibcode = ''1998ApJ...500..525S'', title = [''abcdefgrst''],
      author = [''Sick, J.''], abstract = Some ''We map {dust}.''\<rparr>"

definition example_ads :: ads_service where
  "example_ads =
     \<lparr>search = (\<lambda>i. [example_article]), export = (\<lambda>b. ''@ARTICLE{1998ApJ...500..525S}'')\<rparr>"

definition example_disk :: filesystem where
  "example_disk =
     [(''/papers/sick.pdf'', ''%PDF-1.5''), (''/papers/sick.skim'', ''notes''),
      (''/papers/sick_notes_1.pdf'', ''%PDF-1.4'')]"

text \<open>
  The same article as ADS returns it without an abstract, and one by another first
  author whose title is nearest to the third entry's.
\<close>

definition example_article_no_abstract :: article where
  "example_article_no_abstract =
     \<lparr>bibcode = ''1998ApJ...500..525S'', title = [''abcdefgrst''],
      author = [''Sick, J.''], abstract = None\<rparr>"

definition example_article_roe :: article where
  "example_article_roe =
     \<lparr>bibcode = ''2001A&A...366...62R'', title = [''abcdefghst''],
      author = [''Roe, R.''], abstract = Some ''We map {dust}.''\<rparr>"

definition example_article_roe_no_abstract :: article where
  "example_article_roe_no_abstract =
     \<lparr>bibcode = ''2001A&A...366...62R'', title = [''abcdefghst''],
      author = [''Roe, R.''], abstract = None\<rparr>"

definition ads_with :: "article \<Rightarrow> ads_service" where
  "ads_with a = \<lparr>search = (\<lambda>i. [a]), export = (\<lambda>b. ''@ARTICLE{'' @ b @ ''}'')\<rparr>"

text \<open>
  An empty document whose new entry has no DOI and no URL field, and one whose new
  entry has the same address in two URL fields.
\<close>

definition empty_bibdesk :: bibdesk where
  "empty_bibdesk =
     \<lparr>titles = [], ids = [],
      authors_of = (\<lambda>p. []), abstract_of = (\<lambda>p. []),
      names_of_fields = (\<lambda>p. [''Title'', ''Doi'']),
      values_of_fields = (\<lambda>p. [''abcdefgrst'', []]),
      note_of = (\<lambda>p. []), groups_of = (\<lambda>p. []),
      linked_files_of = (\<lambda>p. []), skim_notes_of = (\<lambda>p. []),
      imported_id = ''id9'',
      doi_of = (\<lambda>p. []),
      url_fields_of = (\<lambda>p. []),
      linked_urls_of = (\<lambda>p. []),
      cite_key_of = (\<lambda>p. ''Sick:1998'')\<rparr>"

definition two_url_fields :: bibdesk where
  "two_url_fields =
     empty_bibdesk\<lparr>url_fields_of :=
       (\<lambda>p. [''https://ui.adsabs.harvard.edu/abs/1998ApJ...500..525S'',
             ''https://ui.adsabs.harvard.edu/abs/1998ApJ...500..525S''])\<rparr>"

text \<open>
  The example document after its second entry has been preserved, with the address of
  the new entry's URL field already among its linked URLs.
\<close>

definition example_kept :: kept where
  "example_kept =
     \<lparr>kept_pdfs = [''/papers/sick_notes_2.pdf''],
      kept_fields = [(''Title'', ''abcdefgxyz''), (''Rating'', ''5''),
                     (''BibDeskAnnotation'', ''read twice'')],
      kept_groups = [''Reading List'']\<rparr>"

definition url_already_linked :: bibdesk where
  "url_already_linked =
     example_bibdesk\<lparr>linked_urls_of :=
       (\<lambda>p. [''https://ui.adsabs.harvard.edu/abs/1998ApJ...500..525S''])\<rparr>"


section \<open>Properties\<close>

subsection \<open>Facts about \<^verbatim>\<open>process_pdf\<close>\<close>

lemma gateway_pdf_links:
  "map_of (get_gateway x) ''pub_pdf'' = Some (gateway_url @ ''/'' @ x @ ''/PUB_PDF'')"
  "map_of (get_gateway x) ''eprint_pdf'' = Some (gateway_url @ ''/'' @ x @ ''/EPRINT_PDF'')"
  "map_of (get_gateway x) ''ads_pdf'' = Some (gateway_url @ ''/'' @ x @ ''/ADS_PDF'')"
  by (simp_all add: get_gateway_def)

text \<open>
  With the sources \<^verbatim>\<open>['pub','eprint','ads']\<close> that \<^verbatim>\<open>process_token\<close> leaves at
  their default, the loop runs at most three times; this is all of \<^verbatim>\<open>process_pdf\<close>.
\<close>

lemma process_pdf_unfold:
  "process_pdf net p x =
    (let u1 = gateway_url @ ''/'' @ x @ ''/PUB_PDF'';
         u2 = gateway_url @ ''/'' @ x @ ''/EPRINT_PDF'';
         u3 = gateway_url @ ''/'' @ x @ ''/ADS_PDF''
     in if py_in ''PDF document'' (downloaded_filetype net p u1)
        then (Inr (mkstemp net 0 @ ''.pdf'', True), download_events p u1)
        else if py_in ''PDF document'' (downloaded_filetype net p u2)
        then (Inr (mkstemp net 1 @ ''.pdf'', True), download_events p u1 @ download_events p u2)
        else (Inr (mkstemp net 2 @ ''.pdf'', py_in ''PDF document'' (downloaded_filetype net p u3)),
              download_events p u1 @ download_events p u2 @ download_events p u3))"
  unfolding process_pdf_def process_pdf_from_def default_sources_def
  by (simp add: gateway_pdf_links Let_def numeral_2_eq_2)

text \<open>The first download is of the publisher link, whatever the identifier.\<close>

lemma publisher_link_first:
  "hd (snd (process_pdf net p x)) = Get (gateway_url @ ''/'' @ x @ ''/PUB_PDF'')"
  by (simp add: process_pdf_unfold Let_def download_events_def)

text \<open>
  The downloads are of the publisher link, then the eprint link, then the scan link, and
  stop after the first that validates; the file returned is the last one written, and
  the status says whether it validated.
\<close>

lemma downloads_in_order:
  "filter is_Get (snd (process_pdf net p x))
     = map Get (if py_in ''PDF document''
                      (downloaded_filetype net p (gateway_url @ ''/'' @ x @ ''/PUB_PDF''))
                then [gateway_url @ ''/'' @ x @ ''/PUB_PDF'']
                else if py_in ''PDF document''
                      (downloaded_filetype net p (gateway_url @ ''/'' @ x @ ''/EPRINT_PDF''))
                then [gateway_url @ ''/'' @ x @ ''/PUB_PDF'', gateway_url @ ''/'' @ x @ ''/EPRINT_PDF'']
                else [gateway_url @ ''/'' @ x @ ''/PUB_PDF'', gateway_url @ ''/'' @ x @ ''/EPRINT_PDF'',
                      gateway_url @ ''/'' @ x @ ''/ADS_PDF''])"
  by (simp add: process_pdf_unfold Let_def download_events_def)

subsection \<open>Facts about \<^verbatim>\<open>get_close_matches\<close>\<close>






subsection \<open>The proxy relay\<close>




subsection \<open>The order of the sources\<close>

text \<open>
  C6 at an identifier that holds \<^verbatim>\<open>arXiv\<close>, with every link serving a PDF: the one
  download made is of the publisher link, not of the eprint link the claim puts first.
  (The choice the program makes before the loop is overwritten by the loop.)
\<close>

theorem arxiv_identifier_tries_publisher_first:
  "py_in ''arXiv'' ''2019arXiv190404507R''
   \<and> process_pdf pdf_net default_prefs ''2019arXiv190404507R''
     = (Inr (''/tmp/tmpab12cd34.pdf'', True),
        [Get ''https://ui.adsabs.harvard.edu/link_gateway/2019arXiv190404507R/PUB_PDF''])"
  by (simp add: process_pdf_unfold Let_def download_events_def proxy_guard_def pdf_net_def
      downloaded_filetype_def gateway_url_def default_prefs_def)

subsection \<open>A lookup without exactly one result\<close>

text \<open>
  C4 at a lookup with no result and at one with two: the program notifies, changes
  neither the document nor the disk, and then raises \<^verbatim>\<open>NameError\<close> where the claim
  has it return an unsuccessful status.
\<close>

theorem lookup_failure_raises:
  "process_token ratio \<lparr>search = (\<lambda>i. []), export = ex\<rparr> net p bd fs x
     = \<lparr>outcome = Inl NameError,
        events = [Notify ''Found Zero or Multiple ADS antries for '' x '' No update in BibDesk''],
        disk = fs, attempts = []\<rparr>
   \<and> process_token ratio \<lparr>search = (\<lambda>i. [a, b]), export = ex\<rparr> net p bd fs x
     = \<lparr>outcome = Inl NameError,
        events = [Notify ''Found Zero or Multiple ADS antries for '' x '' No update in BibDesk''],
        disk = fs, attempts = []\<rparr>"
  by (simp add: process_token_def)

subsection \<open>The gates of the duplicate test\<close>



text \<open>
  C3: once the title gate has yielded a title, the entry with that title is the
  duplicate exactly when the ratio of its first author against the new first author
  is above 6/10 and its stored abstract is empty or has a ratio above 6/10 against the
  new abstract; no other entry is ever the duplicate, and an entry that fails the author
  gate or the abstract gate leaves the program without a duplicate. (Both entries are
  taken to have an author: \<^verbatim>\<open>[0]\<close> raises otherwise.)
\<close>

theorem author_and_abstract_gates:
  assumes found: "get_close_matches ratio title0 (titles bd) (7 / 10) = [t]"
    and old: "pid bd t = Inr old" "authors_of bd old = old_author # others"
    and new: "author a = new_author # coauthors"
  shows "(find_duplicate ratio bd a title0 = Inr (Some old)
           \<longleftrightarrow> ratio old_author new_author > 6 / 10
               \<and> (abstract_of bd old = []
                   \<or> (\<exists>new_abstract. abstract a = Some new_abstract
                         \<and> ratio (abstract_of bd old) new_abstract > 6 / 10)))
       \<and> (\<forall>q. find_duplicate ratio bd a title0 = Inr (Some q) \<longrightarrow> q = old)
       \<and> (ratio old_author new_author \<le> 6 / 10 \<longrightarrow> find_duplicate ratio bd a title0 = Inr None)
       \<and> (\<forall>new_abstract. abstract_of bd old \<noteq> [] \<and> abstract a = Some new_abstract
             \<and> ratio (abstract_of bd old) new_abstract \<le> 6 / 10
             \<longrightarrow> find_duplicate ratio bd a title0 = Inr None)"
  using assms by (auto simp: find_duplicate_def Let_def split: option.splits)

theorem author_and_abstract_gates_witness:
  "find_duplicate prefix_matcher example_bibdesk example_article ''abcdefgrst'' = Inr (Some ''id2'')
   \<and> find_duplicate prefix_matcher example_bibdesk example_article_roe ''abcdefgrst'' = Inr None
   \<and> find_duplicate prefix_matcher example_bibdesk example_article_roe ''abcdefghst'' = Inr None"
proof -
  have found2: "get_close_matches prefix_matcher ''abcdefgrst'' (titles example_bibdesk) (7 / 10)
      = [''abcdefgxyz'']"
    by (simp add: get_close_matches_def prefix_matcher_def example_bibdesk_def)
  have found3: "get_close_matches prefix_matcher ''abcdefghst'' (titles example_bibdesk) (7 / 10)
      = [''abcdefghyz'']"
    by (simp add: get_close_matches_def prefix_matcher_def example_bibdesk_def less_prod_def)
  have id2: "pid example_bibdesk ''abcdefgxyz'' = Inr ''id2''"
    "authors_of example_bibdesk ''id2'' = ''Sick, J.'' # [''Doe, J.'']"
    "abstract_of example_bibdesk ''id2'' = []"
    by (simp_all add: pid_def example_bibdesk_def)
  have id3: "pid example_bibdesk ''abcdefghyz'' = Inr ''id3''"
    "authors_of example_bibdesk ''id3'' = ''Roe, R.'' # []"
    by (simp_all add: pid_def example_bibdesk_def)
  have sick: "author example_article = ''Sick, J.'' # []"
    by (simp add: example_article_def)
  have roe: "author example_article_roe = ''Roe, R.'' # []"
    "abstract example_article_roe = Some ''We map {dust}.''"
    by (simp_all add: example_article_roe_def)
  have r1: "prefix_matcher ''Sick, J.'' ''Sick, J.'' > 6 / 10"
    and r2: "prefix_matcher ''Sick, J.'' ''Roe, R.'' \<le> 6 / 10"
    and r3: "prefix_matcher (abstract_of example_bibdesk ''id3'') ''We map {dust}.'' \<le> 6 / 10"
    and r4: "prefix_matcher ''Roe, R.'' ''Roe, R.'' > 6 / 10"
    and ne: "abstract_of example_bibdesk ''id3'' \<noteq> []"
    by (simp_all add: prefix_matcher_def example_bibdesk_def)
  note gates2_sick = author_and_abstract_gates [OF found2 id2(1) id2(2) sick]
  note gates2_roe = author_and_abstract_gates [OF found2 id2(1) id2(2) roe(1)]
  note gates3_roe = author_and_abstract_gates [OF found3 id3(1) id3(2) roe(1)]
  have "find_duplicate prefix_matcher example_bibdesk example_article ''abcdefgrst''
      = Inr (Some ''id2'')"
    using gates2_sick r1 id2(3) by blast
  moreover have "find_duplicate prefix_matcher example_bibdesk example_article_roe ''abcdefgrst''
      = Inr None"
    using gates2_roe r2 by blast
  moreover have "find_duplicate prefix_matcher example_bibdesk example_article_roe ''abcdefghst''
      = Inr None"
    using gates3_roe r3 ne roe(2) by blast
  ultimately show ?thesis by blast
qed

text \<open>When no duplicate is found, nothing is deleted and the disk stays as it is.\<close>

lemma add_entry_no_Delete: "filter is_Delete (snd (add_entry bd x a t0 btx f st k)) = []"
  by (auto simp: add_entry_def Let_def attach_fetched_def link_urls_def restore_fields_def
      filter_empty_conv split: option.splits sum.splits)

lemma no_duplicate_no_removal:
  assumes "search ads x = [a]" "title a = t0 # ts" "find_duplicate ratio bd a t0 = Inr None"
  shows "filter is_Delete (events (process_token ratio ads net p bd fs x)) = []
         \<and> disk (process_token ratio ads net p bd fs x) = fs"
  using assms add_entry_no_Delete
  by (simp add: process_token_def Let_def split: prod.splits sum.splits)

subsection \<open>A record without an abstract\<close>

lemma process_pdf_Inr: "\<exists>f st att. process_pdf net p x = (Inr (f, st), att)"
  by (auto simp add: process_pdf_unfold Let_def)

lemma add_entry_no_abstract:
  "abstract a = None \<Longrightarrow>
     add_entry bd x a t0 btx f st k
       = (Inl AttributeError,
          [Tell None (Import (escape_quotes btx)), Tell (Some (imported_id bd)) Set_cite_key])"
  by (simp add: add_entry_def Let_def)

lemma find_duplicate_no_abstract:
  assumes "abstract a = None"
    and "get_close_matches ratio t0 (titles bd) (7 / 10) = [t]"
    and "pid bd t = Inr old" "authors_of bd old = old_author # others"
    and "author a = new_author # coauthors"
    and "ratio old_author new_author > 6 / 10" "abstract_of bd old \<noteq> []"
  shows "find_duplicate ratio bd a t0 = Inl TypeError"
  using assms by (simp add: find_duplicate_def Let_def)

text \<open>
  C10: when the one article ADS returns has no abstract, \<^verbatim>\<open>process_token\<close> never
  returns; it raises. If the entry found by the title gate passes the author gate and has
  a stored abstract, the abstract gate raises \<^verbatim>\<open>TypeError\<close> before anything is sent
  to BibDesk. If no duplicate is found, or one is found (its stored abstract being empty)
  and has been removed, the new entry is imported and given a cite key, and then the
  step that escapes the abstract raises \<^verbatim>\<open>AttributeError\<close>.
\<close>

theorem absent_abstract_raises:
  assumes one: "search ads x = [a]" and none: "abstract a = None"
  shows "(\<exists>e. outcome (process_token ratio ads net p bd fs x) = Inl e)
    \<and> (\<forall>t0 ts t old old_author others new_author coauthors.
          title a = t0 # ts \<and> get_close_matches ratio t0 (titles bd) (7 / 10) = [t]
          \<and> pid bd t = Inr old \<and> authors_of bd old = old_author # others
          \<and> author a = new_author # coauthors
          \<and> ratio old_author new_author > 6 / 10 \<and> abstract_of bd old \<noteq> []
          \<longrightarrow> outcome (process_token ratio ads net p bd fs x) = Inl TypeError
              \<and> events (process_token ratio ads net p bd fs x) = []
              \<and> disk (process_token ratio ads net p bd fs x) = fs)
    \<and> (\<forall>t0 ts. title a = t0 # ts \<and> find_duplicate ratio bd a t0 = Inr None
          \<longrightarrow> outcome (process_token ratio ads net p bd fs x) = Inl AttributeError
              \<and> events (process_token ratio ads net p bd fs x)
                  = [Tell None (Import (escape_quotes (export ads (bibcode a)))),
                     Tell (Some (imported_id bd)) Set_cite_key])
    \<and> (\<forall>t0 ts old k fs1 ev.
          title a = t0 # ts \<and> find_duplicate ratio bd a t0 = Inr (Some old)
          \<and> preserve bd fs old x t0 = (Inr k, fs1, ev)
          \<longrightarrow> outcome (process_token ratio ads net p bd fs x) = Inl AttributeError
              \<and> events (process_token ratio ads net p bd fs x)
                  = ev @ [Tell None (Import (escape_quotes (export ads (bibcode a)))),
                          Tell (Some (imported_id bd)) Set_cite_key])"
proof -
  obtain f st att where pdf: "process_pdf net p x = (Inr (f, st), att)"
    using process_pdf_Inr by blast
  let ?r = "process_token ratio ads net p bd fs x"
  have raises: "\<exists>e. outcome ?r = Inl e"
  proof (cases "title a")
    case Nil
    then show ?thesis using one pdf by (simp add: process_token_def)
  next
    case (Cons t0 ts)
    show ?thesis
    proof (cases "find_duplicate ratio bd a t0")
      case (Inl e)
      then show ?thesis using one pdf Cons by (simp add: process_token_def)
    next
      case (Inr found)
      show ?thesis
      proof (cases found)
        case None
        then show ?thesis
          using one pdf Cons Inr none by (simp add: process_token_def add_entry_no_abstract)
      next
        case (Some old)
        obtain r fs1 ev where pr: "preserve bd fs old x t0 = (r, fs1, ev)"
          by (cases "preserve bd fs old x t0") auto
        show ?thesis
          using one pdf Cons Inr Some pr none
          by (cases r) (simp_all add: process_token_def add_entry_no_abstract)
      qed
    qed
  qed
  have gate: "outcome ?r = Inl TypeError \<and> events ?r = [] \<and> disk ?r = fs"
    if "title a = t0 # ts" "get_close_matches ratio t0 (titles bd) (7 / 10) = [t]"
      "pid bd t = Inr old" "authors_of bd old = old_author # others"
      "author a = new_author # coauthors"
      "ratio old_author new_author > 6 / 10" "abstract_of bd old \<noteq> []"
    for t0 ts t old old_author others new_author coauthors
  proof -
    have "find_duplicate ratio bd a t0 = Inl TypeError"
      using none that(2-7) by (rule find_duplicate_no_abstract)
    then show ?thesis using one pdf that(1) by (simp add: process_token_def)
  qed
  have fresh: "outcome ?r = Inl AttributeError
      \<and> events ?r = [Tell None (Import (escape_quotes (export ads (bibcode a)))),
                     Tell (Some (imported_id bd)) Set_cite_key]"
    if "title a = t0 # ts" "find_duplicate ratio bd a t0 = Inr None" for t0 ts
    using one pdf that none by (simp add: process_token_def add_entry_no_abstract)
  have merged: "outcome ?r = Inl AttributeError
      \<and> events ?r = ev @ [Tell None (Import (escape_quotes (export ads (bibcode a)))),
                          Tell (Some (imported_id bd)) Set_cite_key]"
    if "title a = t0 # ts" "find_duplicate ratio bd a t0 = Inr (Some old)"
      "preserve bd fs old x t0 = (Inr k, fs1, ev)" for t0 ts old k fs1 ev
    using one pdf that none by (simp add: process_token_def add_entry_no_abstract)
  show ?thesis using raises gate fresh merged by blast
qed

theorem absent_abstract_raises_witness:
  "outcome (process_token prefix_matcher (ads_with example_article_no_abstract) pdf_net
              default_prefs example_bibdesk example_disk ''1998ApJ...500..525S'')
     = Inl AttributeError
   \<and> events (process_token prefix_matcher (ads_with example_article_no_abstract) pdf_net
               default_prefs example_bibdesk example_disk ''1998ApJ...500..525S'')
     = [Tell (Some ''id2'') Delete,
        Notify ''Duplicate publication removed'' ''1998ApJ...500..525S'' ''abcdefgrst'',
        Tell None (Import ''@ARTICLE{1998ApJ...500..525S}''),
        Tell (Some ''id9'') Set_cite_key]
   \<and> outcome (process_token prefix_matcher (ads_with example_article_roe_no_abstract) pdf_net
                default_prefs example_bibdesk example_disk ''2001A&A...366...62R'')
     = Inl TypeError
   \<and> events (process_token prefix_matcher (ads_with example_article_roe_no_abstract) pdf_net
               default_prefs example_bibdesk example_disk ''2001A&A...366...62R'') = []
   \<and> outcome (process_token prefix_matcher (ads_with example_article_no_abstract) pdf_net
                default_prefs empty_bibdesk example_disk ''1998ApJ...500..525S'')
     = Inl AttributeError
   \<and> events (process_token prefix_matcher (ads_with example_article_no_abstract) pdf_net
               default_prefs empty_bibdesk example_disk ''1998ApJ...500..525S'')
     = [Tell None (Import ''@ARTICLE{1998ApJ...500..525S}''),
        Tell (Some ''id9'') Set_cite_key]"
proof -
  have sick: "search (ads_with example_article_no_abstract) ''1998ApJ...500..525S''
      = [example_article_no_abstract]"
    "abstract example_article_no_abstract = None"
    "title example_article_no_abstract = ''abcdefgrst'' # []"
    by (simp_all add: ads_with_def example_article_no_abstract_def)
  have dup: "find_duplicate prefix_matcher example_bibdesk example_article_no_abstract ''abcdefgrst''
      = Inr (Some ''id2'')"
    by code_simp
  have kept: "preserve example_bibdesk example_disk ''id2'' ''1998ApJ...500..525S'' ''abcdefgrst''
      = (Inr \<lparr>kept_pdfs = [''/papers/sick_notes_2.pdf''],
              kept_fields = [(''Title'', ''abcdefgxyz''), (''Rating'', ''5''),
                             (''BibDeskAnnotation'', ''read twice'')],
              kept_groups = [''Reading List'']\<rparr>,
         [(''/papers/sick_notes_2.skim'', ''notes''), (''/papers/sick_notes_2.pdf'', ''%PDF-1.5''),
          (''/papers/sick_notes_1.pdf'', ''%PDF-1.4'')],
         [Tell (Some ''id2'') Delete,
          Notify ''Duplicate publication removed'' ''1998ApJ...500..525S'' ''abcdefgrst''])"
    by code_simp
  have sent: "escape_quotes (export (ads_with example_article_no_abstract)
                              (bibcode example_article_no_abstract))
      = ''@ARTICLE{1998ApJ...500..525S}''"
    "imported_id example_bibdesk = ''id9''"
    by code_simp+
  have roe: "search (ads_with example_article_roe_no_abstract) ''2001A&A...366...62R''
      = [example_article_roe_no_abstract]"
    "abstract example_article_roe_no_abstract = None"
    "title example_article_roe_no_abstract = ''abcdefghst'' # []"
    "author example_article_roe_no_abstract = ''Roe, R.'' # []"
    by (simp_all add: ads_with_def example_article_roe_no_abstract_def)
  have found3: "get_close_matches prefix_matcher ''abcdefghst'' (titles example_bibdesk) (7 / 10)
      = [''abcdefghyz'']"
    by (simp add: get_close_matches_def prefix_matcher_def example_bibdesk_def less_prod_def)
  have id3: "pid example_bibdesk ''abcdefghyz'' = Inr ''id3''"
    "authors_of example_bibdesk ''id3'' = ''Roe, R.'' # []"
    "abstract_of example_bibdesk ''id3'' \<noteq> []"
    "prefix_matcher ''Roe, R.'' ''Roe, R.'' > 6 / 10"
    by (simp_all add: pid_def example_bibdesk_def prefix_matcher_def)
  have nodup: "find_duplicate prefix_matcher empty_bibdesk example_article_no_abstract ''abcdefgrst''
      = Inr None"
    "imported_id empty_bibdesk = ''id9''"
    by code_simp+
  note fresh = absent_abstract_raises [OF sick(1) sick(2), of prefix_matcher pdf_net
      default_prefs empty_bibdesk example_disk]
  note merged = absent_abstract_raises [OF sick(1) sick(2), of prefix_matcher pdf_net
      default_prefs example_bibdesk example_disk]
  note gate = absent_abstract_raises [OF roe(1) roe(2), of prefix_matcher pdf_net
      default_prefs example_bibdesk example_disk]
  have "outcome (process_token prefix_matcher (ads_with example_article_no_abstract) pdf_net
              default_prefs example_bibdesk example_disk ''1998ApJ...500..525S'')
     = Inl AttributeError
   \<and> events (process_token prefix_matcher (ads_with example_article_no_abstract) pdf_net
               default_prefs example_bibdesk example_disk ''1998ApJ...500..525S'')
     = [Tell (Some ''id2'') Delete,
        Notify ''Duplicate publication removed'' ''1998ApJ...500..525S'' ''abcdefgrst'']
       @ [Tell None (Import (escape_quotes (export (ads_with example_article_no_abstract)
                              (bibcode example_article_no_abstract)))),
          Tell (Some (imported_id example_bibdesk)) Set_cite_key]"
    using merged sick(3) dup kept by blast
  moreover have "outcome (process_token prefix_matcher (ads_with example_article_roe_no_abstract)
                pdf_net default_prefs example_bibdesk example_disk ''2001A&A...366...62R'')
     = Inl TypeError
   \<and> events (process_token prefix_matcher (ads_with example_article_roe_no_abstract) pdf_net
               default_prefs example_bibdesk example_disk ''2001A&A...366...62R'') = []"
    using gate roe(3) roe(4) found3 id3 by blast
  moreover have "outcome (process_token prefix_matcher (ads_with example_article_no_abstract)
                pdf_net default_prefs empty_bibdesk example_disk ''1998ApJ...500..525S'')
     = Inl AttributeError
   \<and> events (process_token prefix_matcher (ads_with example_article_no_abstract) pdf_net
               default_prefs empty_bibdesk example_disk ''1998ApJ...500..525S'')
     = [Tell None (Import (escape_quotes (export (ads_with example_article_no_abstract)
                              (bibcode example_article_no_abstract)))),
        Tell (Some (imported_id empty_bibdesk)) Set_cite_key]"
    using fresh sick(3) nodup(1) by blast
  ultimately show ?thesis by (simp add: sent nodup(2))
qed

subsection \<open>Restoring the preserved fields\<close>

text \<open>
  C1 on a run that merges: the old entry \<^verbatim>\<open>id2\<close> has the custom field
  \<^verbatim>\<open>Rating\<close> with value \<^verbatim>\<open>5\<close>, the note \<^verbatim>\<open>read twice\<close> and a \<^verbatim>\<open>Title\<close>;
  the new entry \<^verbatim>\<open>id9\<close> has \<^verbatim>\<open>Title\<close> and \<^verbatim>\<open>Doi\<close>. The note is set on the
  new entry and nothing is sent for \<^verbatim>\<open>Title\<close>, as the claim says. For \<^verbatim>\<open>Rating\<close>
  the command sent goes to the document, not to the new entry, names the field
  \<^verbatim>\<open>('Rating', '5')\<close> and gives it the value \<^verbatim>\<open>id9\<close>: no command sets
  \<^verbatim>\<open>Rating\<close> to \<^verbatim>\<open>5\<close> on the new entry.
\<close>

theorem restored_field_is_garbled:
  "process_token prefix_matcher example_ads html_net default_prefs example_bibdesk example_disk
     ''1998ApJ...500..525S''
   = \<lparr>outcome = Inr True,
      events =
        [Tell (Some ''id2'') Delete,
         Notify ''Duplicate publication removed'' ''1998ApJ...500..525S'' ''abcdefgrst'',
         Tell None (Import ''@ARTICLE{1998ApJ...500..525S}''),
         Tell (Some ''id9'') Set_cite_key,
         Tell (Some ''id9'') (Set_abstract ''We map  dust .''),
         Tell (Some ''id9'')
           (Make_linked_URL ''https://ui.adsabs.harvard.edu/abs/1998ApJ...500..525S''),
         Tell (Some ''id9'') (Add_file_end ''/papers/sick_notes_2.pdf''),
         Tell (Some ''id9'') (Set_note ''read twice''),
         Tell None (Set_field ''('Rating', '5')'' ''id9''),
         Notify ''New publication added'' ''Sick:1998'' ''abcdefgrst'',
         Add_groups ''id9'' [''Reading List'']],
      disk =
        [(''/papers/sick_notes_2.skim'', ''notes''),
         (''/papers/sick_notes_2.pdf'', ''%PDF-1.5''),
         (''/papers/sick_notes_1.pdf'', ''%PDF-1.4'')],
      attempts =
        [Get ''https://ui.adsabs.harvard.edu/link_gateway/1998ApJ...500..525S/PUB_PDF'',
         Get ''https://ui.adsabs.harvard.edu/link_gateway/1998ApJ...500..525S/EPRINT_PDF'',
         Get ''https://ui.adsabs.harvard.edu/link_gateway/1998ApJ...500..525S/ADS_PDF'']\<rparr>"
  by code_simp

text \<open>The text of that call, as the application receives it.\<close>

lemma restored_field_script:
  \<open>applescript None (Set_field (py_repr_pair ''Rating'' ''5'') ''id9'')
     = ''tell first document of application "BibDesk" to set value of field "('Rating', '5')" to "id9"''\<close>
  by (simp add: applescript_def quoted_def py_repr_pair_def py_repr_def py_repr_char_def Let_def)

subsection \<open>Attaching the fetched file\<close>

text \<open>
  C7 on a run where no source serves a PDF and the new entry has no DOI (and no URL
  field): the file is not attached, as the claim says, but no linked URL is made either.
  The name \<^verbatim>\<open>process_pdf\<close> returns is that of a temporary file; the program makes it
  a linked URL only if \<^verbatim>\<open>http\<close> occurs in it.
\<close>

theorem no_landing_page_without_doi:
  "fst (process_pdf html_net default_prefs ''1998ApJ...500..525S'')
     = Inr (''/tmp/tmpab12cd34.pdf'', False)
   \<and> doi_of empty_bibdesk (imported_id empty_bibdesk) = []
   \<and> events (process_token prefix_matcher (ads_with example_article) html_net default_prefs
               empty_bibdesk example_disk ''1998ApJ...500..525S'')
     = [Tell None (Import ''@ARTICLE{1998ApJ...500..525S}''),
        Tell (Some ''id9'') Set_cite_key,
        Tell (Some ''id9'') (Set_abstract ''We map  dust .''),
        Tell (Some ''id9'') (Set_note []),
        Notify ''New publication added'' ''Sick:1998'' ''abcdefgrst'']"
  by code_simp

text \<open>What \<^verbatim>\<open>process_token\<close> attaches for the file, for every outcome of the fetch.\<close>

lemma attach_fetched_cases:
  "attach_fetched pub (tmp @ ''.pdf'') st doi =
     (if st then [Tell (Some pub) (Add_file_beginning (tmp @ ''.pdf'')), Tell (Some pub) Auto_file]
      else if py_in ''http'' (tmp @ ''.pdf'') \<and> doi = []
      then [Tell (Some pub) (Make_linked_URL (tmp @ ''.pdf''))]
      else [])"
  by (simp add: attach_fetched_def endswith_def)


subsection \<open>Presence checks\<close>

lemma dict_pop_rest: "snd (dict_pop d k dflt) = filter (\<lambda>kv. fst kv \<noteq> k) d"
proof (cases "map_of d k")
  case None
  then have "k \<notin> fst ` set d" by (simp add: map_of_eq_None_iff)
  then have "filter (\<lambda>kv. fst kv \<noteq> k) d = d" by (auto simp: filter_id_conv)
  with None show ?thesis by (simp add: dict_pop_def)
next
  case (Some v)
  then show ?thesis by (simp add: dict_pop_def)
qed

lemma restore_fields_count:
  "length (filter is_Set_field (restore_fields pub preserved newFields))
     = length (filter (\<lambda>kv. fst kv \<noteq> ''BibDeskAnnotation'' \<and> fst kv \<notin> set newFields) preserved)"
proof -
  have "filter is_Set_field (map (\<lambda>kv. Tell None (Set_field (py_repr_pair (fst kv) (snd kv)) pub)) xs)
      = map (\<lambda>kv. Tell None (Set_field (py_repr_pair (fst kv) (snd kv)) pub)) xs" for xs
    by (induction xs) simp_all
  then show ?thesis
    by (simp add: restore_fields_def Let_def dict_pop_rest conj_commute)
qed

lemma link_urls_no_fields:
  "filter is_Set_field (link_urls pub urls urlspub) = []"
  "filter is_Add_groups (link_urls pub urls urlspub) = []"
  by (simp_all add: link_urls_def filter_empty_conv)

lemma attach_fetched_no_fields:
  "filter is_Set_field (attach_fetched pub f st doi) = []"
  "filter is_Add_groups (attach_fetched pub f st doi) = []"
  by (simp_all add: attach_fetched_def)

lemma kept_files_no_fields:
  "filter is_Set_field (map (\<lambda>kept_pdf. Tell (Some pub) (Add_file_end kept_pdf)) pdfs) = []"
  "filter is_Add_groups (map (\<lambda>kept_pdf. Tell (Some pub) (Add_file_end kept_pdf)) pdfs) = []"
  by (simp_all add: filter_empty_conv)

lemma restore_fields_no_groups:
  "filter is_Add_groups (restore_fields pub preserved newFields) = []"
  by (simp add: restore_fields_def Let_def filter_empty_conv)

text \<open>
  C9 as stated fails: the new entry has the same address in two URL fields and no linked
  URL yet; the program makes a linked URL of it twice. (The check is against the linked
  URLs as read once before the loop.)
\<close>

theorem same_url_linked_twice_counterexample:
  "linked_urls_of two_url_fields ''id9'' = []
   \<and> events (process_token prefix_matcher (ads_with example_article) html_net default_prefs
               two_url_fields example_disk ''1998ApJ...500..525S'')
     = [Tell None (Import ''@ARTICLE{1998ApJ...500..525S}''),
        Tell (Some ''id9'') Set_cite_key,
        Tell (Some ''id9'') (Set_abstract ''We map  dust .''),
        Tell (Some ''id9'')
          (Make_linked_URL ''https://ui.adsabs.harvard.edu/abs/1998ApJ...500..525S''),
        Tell (Some ''id9'')
          (Make_linked_URL ''https://ui.adsabs.harvard.edu/abs/1998ApJ...500..525S''),
        Tell (Some ''id9'') (Set_note []),
        Notify ''New publication added'' ''Sick:1998'' ''abcdefgrst'']"
  by code_simp

text \<open>
  C9, as the program has it, on a run of the import that returns. A linked URL made for
  the new entry, other than of the name of the fetched file, is of an address that was
  not among the entry's linked URLs when they were read. The number of field commands
  sent is the number of preserved fields, the note apart, whose name was not among the
  new entry's field names when they were read: a preserved field whose name the new
  entry has sends nothing. The groups are sent in one command whenever there are any,
  with no check.
\<close>

theorem insertions_checked_against_reading:
  assumes "add_entry bd x a t0 btx f st k = (Inr True, evs)"
  shows "(\<forall>u. Tell (Some (imported_id bd)) (Make_linked_URL u) \<in> set evs \<and> u \<noteq> f
            \<longrightarrow> u \<notin> set (linked_urls_of bd (imported_id bd)))
       \<and> length (filter is_Set_field evs)
           = length (filter (\<lambda>kv. fst kv \<noteq> ''BibDeskAnnotation''
                                  \<and> fst kv \<notin> set (names_of_fields bd (imported_id bd)))
                       (kept_fields k))
       \<and> filter is_Add_groups evs
           = (if kept_groups k \<noteq> [] then [Add_groups (imported_id bd) (kept_groups k)]
              else [])"
proof -
  let ?pub = "imported_id bd"
  from assms obtain ab urls where ab: "abstract a = Some ab"
    and evs: "evs =
        [Tell None (Import (escape_quotes btx)), Tell (Some ?pub) Set_cite_key]
        @ [Tell (Some ?pub) (Set_abstract
             (py_replace (CHR ''{'') '' '' (py_replace (CHR ''}'') '' '' (escape_quotes ab))))]
        @ attach_fetched ?pub f st (doi_of bd ?pub)
        @ link_urls ?pub urls (linked_urls_of bd ?pub)
        @ map (\<lambda>kept_pdf. Tell (Some ?pub) (Add_file_end kept_pdf)) (kept_pdfs k)
        @ restore_fields ?pub (kept_fields k) (names_of_fields bd ?pub)
        @ [Notify ''New publication added'' (cite_key_of bd ?pub) t0]
        @ (if kept_groups k \<noteq> [] then [Add_groups ?pub (kept_groups k)] else [])"
    by (auto simp: add_entry_def Let_def split: option.splits sum.splits if_splits)
  have urls: "u \<notin> set (linked_urls_of bd ?pub)"
    if "Tell (Some ?pub) (Make_linked_URL u) \<in> set evs" "u \<noteq> f" for u
    using that unfolding evs
    by (auto simp: attach_fetched_def link_urls_def restore_fields_def Let_def split: if_splits)
  have count: "length (filter is_Set_field evs)
      = length (filter (\<lambda>kv. fst kv \<noteq> ''BibDeskAnnotation''
                              \<and> fst kv \<notin> set (names_of_fields bd ?pub)) (kept_fields k))"
    unfolding evs
    by (simp add: link_urls_no_fields attach_fetched_no_fields kept_files_no_fields
        restore_fields_count)
  have groups: "filter is_Add_groups evs
      = (if kept_groups k \<noteq> [] then [Add_groups ?pub (kept_groups k)] else [])"
    unfolding evs
    by (simp add: link_urls_no_fields attach_fetched_no_fields kept_files_no_fields
        restore_fields_no_groups)
  show ?thesis using urls count groups by blast
qed

theorem insertions_checked_against_reading_witness:
  "snd (add_entry url_already_linked ''1998ApJ...500..525S'' example_article ''abcdefgrst''
          ''@ARTICLE{1998ApJ...500..525S}'' ''/tmp/tmpab12cd34.pdf'' False example_kept)
     = [Tell None (Import ''@ARTICLE{1998ApJ...500..525S}''),
        Tell (Some ''id9'') Set_cite_key,
        Tell (Some ''id9'') (Set_abstract ''We map  dust .''),
        Tell (Some ''id9'') (Add_file_end ''/papers/sick_notes_2.pdf''),
        Tell (Some ''id9'') (Set_note ''read twice''),
        Tell None (Set_field ''('Rating', '5')'' ''id9''),
        Notify ''New publication added'' ''Sick:1998'' ''abcdefgrst'',
        Add_groups ''id9'' [''Reading List'']]
   \<and> length (filter is_Set_field
        (snd (add_entry url_already_linked ''1998ApJ...500..525S'' example_article ''abcdefgrst''
                ''@ARTICLE{1998ApJ...500..525S}'' ''/tmp/tmpab12cd34.pdf'' False example_kept))) = 1
   \<and> filter is_Add_groups
        (snd (add_entry url_already_linked ''1998ApJ...500..525S'' example_article ''abcdefgrst''
                ''@ARTICLE{1998ApJ...500..525S}'' ''/tmp/tmpab12cd34.pdf'' False example_kept))
       = [Add_groups ''id9'' [''Reading List'']]"
proof -
  let ?evs = "[Tell None (Import ''@ARTICLE{1998ApJ...500..525S}''),
        Tell (Some ''id9'') Set_cite_key,
        Tell (Some ''id9'') (Set_abstract ''We map  dust .''),
        Tell (Some ''id9'') (Add_file_end ''/papers/sick_notes_2.pdf''),
        Tell (Some ''id9'') (Set_note ''read twice''),
        Tell None (Set_field ''('Rating', '5')'' ''id9''),
        Notify ''New publication added'' ''Sick:1998'' ''abcdefgrst'',
        Add_groups ''id9'' [''Reading List'']]"
  have run: "add_entry url_already_linked ''1998ApJ...500..525S'' example_article ''abcdefgrst''
          ''@ARTICLE{1998ApJ...500..525S}'' ''/tmp/tmpab12cd34.pdf'' False example_kept
      = (Inr True, ?evs)"
    by code_simp
  have absent: "length (filter (\<lambda>kv. fst kv \<noteq> ''BibDeskAnnotation''
                   \<and> fst kv \<notin> set (names_of_fields url_already_linked (imported_id url_already_linked)))
                 (kept_fields example_kept)) = 1"
    and groups: "kept_groups example_kept = [''Reading List'']"
    and pub: "imported_id url_already_linked = ''id9''"
    by (simp_all add: url_already_linked_def example_bibdesk_def example_kept_def)
  note checked = insertions_checked_against_reading [OF run]
  have "length (filter is_Set_field ?evs) = 1"
    using checked absent by presburger
  moreover have "filter is_Add_groups ?evs = [Add_groups ''id9'' [''Reading List'']]"
    using checked groups pub by simp
  ultimately show ?thesis using run by simp
qed

subsection \<open>\<^verbatim>\<open>safe_delete\<close> keeps annotated PDFs\<close>




































end
